theory Spec2Isabelle
  imports Main
begin

section \<open>Token middleware of the backend (src/backend/src/middleware/auth.js)\<close>

text \<open>
  The module keeps one piece of state, the set \<open>tokenBlacklist\<close>, and exports
  \<open>authenticateToken\<close>, \<open>generateTokens\<close> and \<open>revokeToken\<close>. It calls three
  functions of the \<open>jsonwebtoken\<close> package, which is not part of the repository: they are
  a parameter of every definition below. Clock readings (\<open>Date.now()\<close>, milliseconds) are
  passed in as integers.
\<close>

subsection \<open>The jsonwebtoken interface\<close>

text \<open>
  The claims of a token. \<open>generateTokens\<close> writes \<open>id\<close>, \<open>email\<close> and \<open>iat\<close>; the
  library adds \<open>exp\<close>. The module reads \<open>iat\<close> only in the products \<open>iat * 1000\<close>:
  \<open>payload_iat\<close> is \<open>Some i\<close> when that field is the integral number \<open>i\<close> of seconds, and
  \<open>None\<close> when the product is \<open>NaN\<close> (the field is absent or not a number), in which case
  every comparison with it is false.
\<close>

record payload =
  payload_id :: int
  payload_email :: string
  payload_iat :: "int option"
  payload_exp :: "int option"

text \<open>
  \<open>jwt.verify(token, secret, callback)\<close> hands the callback either an error, of which the
  module reads the \<open>name\<close>, or the verified claims.
\<close>

datatype verify_result = VerifyError string | Verified payload

text \<open>
  \<open>jwt.decode(token)\<close> returns the claims without checking the signature, returns
  \<open>null\<close>, or throws.
\<close>

datatype decode_result = DecodeThrows | DecodeNull | Decoded payload

text \<open>
  \<open>jwt_sign p secret expiresIn\<close> is \<open>None\<close> when \<open>jwt.sign\<close> throws. \<open>jwt_verify\<close> also
  takes the clock, which the library reads for the expiry claim.
\<close>

record jwt =
  jwt_sign :: "payload \<Rightarrow> string \<Rightarrow> string \<Rightarrow> string option"
  jwt_verify :: "string \<Rightarrow> string \<Rightarrow> int \<Rightarrow> verify_result"
  jwt_decode :: "string \<Rightarrow> decode_result"

subsection \<open>Module constants and state\<close>

text \<open>
  The three constants are fixed when the module is loaded, from the environment or at
  random.
\<close>

record config =
  JWT_SECRET :: string
  JWT_EXPIRES_IN :: string
  JWT_REFRESH_SECRET :: string

text \<open>
  A JavaScript \<open>Set\<close> of strings iterates in insertion order and holds no duplicates: the
  list of its members in that order. \<open>timers\<close> counts the callbacks handed to
  \<open>setTimeout\<close> that have not run yet.
\<close>

record auth_state =
  tokenBlacklist :: "string list"
  timers :: nat

definition set_has :: "string list \<Rightarrow> string \<Rightarrow> bool" where
  "set_has xs x = (x \<in> set xs)"

definition set_add :: "string list \<Rightarrow> string \<Rightarrow> string list" where
  "set_add xs x = (if set_has xs x then xs else xs @ [x])"

subsection \<open>authenticateToken\<close>

text \<open>\<open>s.split(c)\<close> for a separator of one character.\<close>

fun split_js :: "char \<Rightarrow> string \<Rightarrow> string list" where
  "split_js sep [] = [[]]"
| "split_js sep (c # cs) =
     (if c = sep then [] # split_js sep cs
      else (case split_js sep cs of
              [] \<Rightarrow> [[c]]
            | w # ws \<Rightarrow> (c # w) # ws))"

text \<open>Reading an array at an index: \<open>None\<close> is \<open>undefined\<close>.\<close>

definition at_index :: "'a list \<Rightarrow> nat \<Rightarrow> 'a option" where
  "at_index xs i = (if i < length xs then Some (xs ! i) else None)"

text \<open>
  \<open>authHeader && authHeader.split(' ')[1]\<close>: an absent header gives \<open>undefined\<close>, the
  empty header gives itself.
\<close>

definition header_token :: "string option \<Rightarrow> string option" where
  "header_token authHeader =
     (case authHeader of
        None \<Rightarrow> None
      | Some h \<Rightarrow> if h = [] then Some [] else at_index (split_js (CHR '' '') h) 1)"

text \<open>
  The middleware either answers with a status and an error message, or stores the claims
  in \<open>req.user\<close> and calls \<open>next()\<close>.
\<close>

datatype response = Rejected nat string | Next payload

definition maxAge :: int where
  "maxAge = 24 * 60 * 60 * 1000"

definition authenticateToken ::
  "jwt \<Rightarrow> config \<Rightarrow> auth_state \<Rightarrow> int \<Rightarrow> string option \<Rightarrow> response" where
  "authenticateToken lib cfg st now authHeader =
     (case header_token authHeader of
        None \<Rightarrow> Rejected 401 ''Access token required''
      | Some token \<Rightarrow>
          if token = [] then Rejected 401 ''Access token required''
          else if set_has (tokenBlacklist st) token then Rejected 401 ''Token has been revoked''
          else (case jwt_verify lib token (JWT_SECRET cfg) now of
                  VerifyError name \<Rightarrow>
                    if name = ''TokenExpiredError'' then Rejected 401 ''Token expired''
                    else Rejected 403 ''Invalid token''
                | Verified user \<Rightarrow>
                    (case payload_iat user of
                       None \<Rightarrow> Next user
                     | Some iat \<Rightarrow>
                         let tokenAge = now - iat * 1000
                         in if tokenAge > maxAge
                            then Rejected 401 ''Token too old, please refresh''
                            else Next user)))"

subsection \<open>generateTokens\<close>

record tokens =
  accessToken :: string
  refreshToken :: string

text \<open>
  The object literal that is signed; \<open>Math.floor(Date.now() / 1000)\<close> is the clock in
  whole seconds.
\<close>

definition new_payload :: "int \<Rightarrow> int \<Rightarrow> string \<Rightarrow> payload" where
  "new_payload now userId email =
     \<lparr>payload_id = userId, payload_email = email,
      payload_iat = Some (now div 1000), payload_exp = None\<rparr>"

text \<open>
  Both tokens are signed from the same claims; a \<open>jwt.sign\<close> that throws ends the call
  (\<open>None\<close>).
\<close>

definition generateTokens :: "jwt \<Rightarrow> config \<Rightarrow> int \<Rightarrow> int \<Rightarrow> string \<Rightarrow> tokens option" where
  "generateTokens lib cfg now userId email =
     (let p = new_payload now userId email
      in case jwt_sign lib p (JWT_SECRET cfg) (JWT_EXPIRES_IN cfg) of
           None \<Rightarrow> None
         | Some a \<Rightarrow>
             (case jwt_sign lib p (JWT_REFRESH_SECRET cfg) ''7d'' of
                None \<Rightarrow> None
              | Some r \<Rightarrow> Some \<lparr>accessToken = a, refreshToken = r\<rparr>))"

subsection \<open>revokeToken and the deferred sweep\<close>

text \<open>
  The test of the sweep on one member: \<open>True\<close> when the member is deleted. A decode that
  throws reaches the \<open>catch\<close> branch; \<open>null\<close> is falsy, so the condition fails.
\<close>

definition sweep_deletes :: "jwt \<Rightarrow> int \<Rightarrow> string \<Rightarrow> bool" where
  "sweep_deletes lib oneHourAgo oldToken =
     (case jwt_decode lib oldToken of
        DecodeThrows \<Rightarrow> True
      | DecodeNull \<Rightarrow> False
      | Decoded decoded \<Rightarrow>
          (case payload_iat decoded of
             None \<Rightarrow> False
           | Some iat \<Rightarrow> iat * 1000 < oneHourAgo))"

text \<open>The \<open>for ... of\<close> loop over the members; deleting the member just visited is safe.\<close>

fun sweep_loop :: "jwt \<Rightarrow> int \<Rightarrow> string list \<Rightarrow> string list" where
  "sweep_loop lib oneHourAgo [] = []"
| "sweep_loop lib oneHourAgo (oldToken # rest) =
     (if sweep_deletes lib oneHourAgo oldToken then sweep_loop lib oneHourAgo rest
      else oldToken # sweep_loop lib oneHourAgo rest)"

text \<open>The callback given to \<open>setTimeout\<close>, run when the clock reads \<open>now\<close>.\<close>

definition sweep :: "jwt \<Rightarrow> int \<Rightarrow> auth_state \<Rightarrow> auth_state" where
  "sweep lib now st =
     (let oneHourAgo = now - 60 * 60 * 1000
      in st\<lparr>tokenBlacklist := sweep_loop lib oneHourAgo (tokenBlacklist st)\<rparr>)"

definition revokeToken :: "auth_state \<Rightarrow> string \<Rightarrow> auth_state" where
  "revokeToken st token =
     (let st1 = st\<lparr>tokenBlacklist := set_add (tokenBlacklist st) token\<rparr>
      in if length (tokenBlacklist st1) mod 100 = 0
         then st1\<lparr>timers := Suc (timers st1)\<rparr>
         else st1)"

text \<open>
  What happens to the module between two requests: a call of \<open>revokeToken\<close>, a call of
  \<open>generateTokens\<close>, or a pending timer firing at some clock reading. A timer fires only
  if one is pending.
\<close>

datatype event = Revoke string | Issue int int string | Timer int

fun step :: "jwt \<Rightarrow> config \<Rightarrow> auth_state \<Rightarrow> event \<Rightarrow> auth_state" where
  "step lib cfg st (Revoke token) = revokeToken st token"
| "step lib cfg st (Issue now userId email) = st"
| "step lib cfg st (Timer now) =
     (if timers st = 0 then st else (sweep lib now st)\<lparr>timers := timers st - 1\<rparr>)"

fun run :: "jwt \<Rightarrow> config \<Rightarrow> auth_state \<Rightarrow> event list \<Rightarrow> auth_state" where
  "run lib cfg st [] = st"
| "run lib cfg st (ev # evs) = run lib cfg (step lib cfg st ev) evs"

text \<open>The clock readings at which the timers of a sequence of events fire.\<close>

fun sweep_times :: "event list \<Rightarrow> int list" where
  "sweep_times [] = []"
| "sweep_times (Timer now # evs) = now # sweep_times evs"
| "sweep_times (ev # evs) = sweep_times evs"

text \<open>
  Whether every sweep at one of the given clock readings would leave a token in place.
\<close>

fun survives :: "jwt \<Rightarrow> string \<Rightarrow> int list \<Rightarrow> bool" where
  "survives lib token [] = True"
| "survives lib token (now # nows) =
     (\<not> sweep_deletes lib (now - 60 * 60 * 1000) token \<and> survives lib token nows)"

text \<open>
  What the library promises for one signing: the call succeeds, the token is a non-empty
  string without a space, and verifying it under the same secret when the clock reads
  \<open>now\<close> returns the claims that were signed (so it has not expired by then).
\<close>

definition verifies_as_signed :: "jwt \<Rightarrow> payload \<Rightarrow> string \<Rightarrow> string \<Rightarrow> int \<Rightarrow> bool" where
  "verifies_as_signed lib p secret expiresIn now =
     (case jwt_sign lib p secret expiresIn of
        None \<Rightarrow> False
      | Some token \<Rightarrow>
          token \<noteq> [] \<and> CHR '' '' \<notin> set token \<and>
          (case jwt_verify lib token secret now of
             VerifyError name \<Rightarrow> False
           | Verified user \<Rightarrow>
               payload_id user = payload_id p \<and> payload_email user = payload_email p \<and>
               payload_iat user = payload_iat p))"

subsection \<open>A small instance of the library interface\<close>

text \<open>
  For closed examples the interface needs an instance. This one writes a token as
  \<open>id:iat:exp:secret:email\<close> with decimal numbers, where \<open>exp\<close> is \<open>iat\<close> plus the
  lifetime; it decodes by splitting at the colons, returns \<open>null\<close> for any other string,
  rejects a token made under another secret, and reports a token as expired once the
  clock in seconds has reached \<open>exp\<close>.
\<close>

function show_int :: "int \<Rightarrow> string" where
  "show_int n =
     (if n < 10 then [''0123456789'' ! nat n]
      else show_int (n div 10) @ [''0123456789'' ! nat (n mod 10)])"
  by pat_completeness auto
termination
  by (relation "measure nat") auto

definition digit_val :: "char \<Rightarrow> int option" where
  "digit_val c =
     map_of [(CHR ''0'', 0), (CHR ''1'', 1), (CHR ''2'', 2), (CHR ''3'', 3), (CHR ''4'', 4),
             (CHR ''5'', 5), (CHR ''6'', 6), (CHR ''7'', 7), (CHR ''8'', 8), (CHR ''9'', 9)] c"

fun read_int_acc :: "int \<Rightarrow> string \<Rightarrow> int option" where
  "read_int_acc acc [] = Some acc"
| "read_int_acc acc (c # cs) =
     (case digit_val c of None \<Rightarrow> None | Some d \<Rightarrow> read_int_acc (10 * acc + d) cs)"

definition read_int :: "string \<Rightarrow> int option" where
  "read_int s = (if s = [] then None else read_int_acc 0 s)"

definition sample_timespan :: "string \<Rightarrow> int option" where
  "sample_timespan s =
     (if s = ''1h'' then Some 3600
      else if s = ''24h'' then Some 86400
      else if s = ''7d'' then Some 604800
      else None)"

definition sample_parse :: "string \<Rightarrow> (payload \<times> string) option" where
  "sample_parse t =
     (case split_js (CHR '':'') t of
        [a, b, c, s, e] \<Rightarrow>
          (case (read_int a, read_int b, read_int c) of
             (Some i, Some ia, Some ex) \<Rightarrow>
               Some (\<lparr>payload_id = i, payload_email = e,
                      payload_iat = Some ia, payload_exp = Some ex\<rparr>, s)
           | _ \<Rightarrow> None)
      | _ \<Rightarrow> None)"

definition sample_sign :: "payload \<Rightarrow> string \<Rightarrow> string \<Rightarrow> string option" where
  "sample_sign p secret expiresIn =
     (case (payload_iat p, sample_timespan expiresIn) of
        (Some ia, Some d) \<Rightarrow>
          if payload_id p < 0 \<or> ia < 0 then None
          else Some (show_int (payload_id p) @ '':'' @ show_int ia @ '':'' @
                     show_int (ia + d) @ '':'' @ secret @ '':'' @ payload_email p)
      | _ \<Rightarrow> None)"

definition sample_verify :: "string \<Rightarrow> string \<Rightarrow> int \<Rightarrow> verify_result" where
  "sample_verify t secret now =
     (case sample_parse t of
        None \<Rightarrow> VerifyError ''JsonWebTokenError''
      | Some (p, s) \<Rightarrow>
          if s \<noteq> secret then VerifyError ''JsonWebTokenError''
          else (case payload_exp p of
                  None \<Rightarrow> Verified p
                | Some ex \<Rightarrow>
                    if ex \<le> now div 1000 then VerifyError ''TokenExpiredError''
                    else Verified p))"

definition sample_decode :: "string \<Rightarrow> decode_result" where
  "sample_decode t = (case sample_parse t of None \<Rightarrow> DecodeNull | Some (p, s) \<Rightarrow> Decoded p)"

definition sample_jwt :: jwt where
  "sample_jwt = \<lparr>jwt_sign = sample_sign, jwt_verify = sample_verify, jwt_decode = sample_decode\<rparr>"

text \<open>A configuration with the default lifetime, and one with a lifetime of seven days.\<close>

definition cfg_24h :: config where
  "cfg_24h = \<lparr>JWT_SECRET = ''s1'', JWT_EXPIRES_IN = ''24h'', JWT_REFRESH_SECRET = ''s2''\<rparr>"

definition cfg_7d :: config where
  "cfg_7d = \<lparr>JWT_SECRET = ''s1'', JWT_EXPIRES_IN = ''7d'', JWT_REFRESH_SECRET = ''s2''\<rparr>"

text \<open>
  A registry of \<open>n\<close> distinct tokens of this instance, all issued at second 0.
\<close>

definition filler :: "nat \<Rightarrow> string" where
  "filler k = ''7:0:86400:s1:'' @ replicate k (CHR ''u'') @ ''@x.com''"

definition crowded :: "nat \<Rightarrow> auth_state" where
  "crowded n = \<lparr>tokenBlacklist = map filler [1 ..< Suc n], timers = 0\<rparr>"

text \<open>The state when the module has been loaded, and the calls that fill the registry.\<close>

definition initial :: auth_state where
  "initial = \<lparr>tokenBlacklist = [], timers = 0\<rparr>"

definition crowding :: "nat \<Rightarrow> event list" where
  "crowding n = map Revoke (map filler [1 ..< Suc n])"

section \<open>Properties\<close>

subsection \<open>Auxiliary facts\<close>

lemma set_set_add: "set (set_add xs x) = insert x (set xs)"
  by (auto simp: set_add_def set_has_def)

lemma set_add_again: "set_add (set_add xs x) x = set_add xs x"
  by (simp add: set_add_def set_has_def)

lemma blacklist_revokeToken:
  "tokenBlacklist (revokeToken st token) = set_add (tokenBlacklist st) token"
  by (simp add: revokeToken_def Let_def)

lemma sweep_loop_filter:
  "sweep_loop lib h xs = filter (\<lambda>t. \<not> sweep_deletes lib h t) xs"
  by (induction xs) simp_all

lemma blacklist_sweep:
  "tokenBlacklist (sweep lib now st) =
     filter (\<lambda>t. \<not> sweep_deletes lib (now - 60 * 60 * 1000) t) (tokenBlacklist st)"
  by (simp add: sweep_def Let_def sweep_loop_filter)

lemma split_js_not_Nil: "split_js sep s \<noteq> []"
  by (induction s) (auto split: list.splits)

lemma split_js_no_sep: "sep \<notin> set s \<Longrightarrow> split_js sep s = [s]"
  by (induction s) auto

lemma split_js_append:
  "sep \<notin> set a \<Longrightarrow> split_js sep (a @ sep # b) = a # split_js sep b"
  by (induction a) auto

lemma header_token_scheme:
  assumes "CHR '' '' \<notin> set scheme" and "CHR '' '' \<notin> set token"
  shows "header_token (Some (scheme @ '' '' @ token)) = Some token"
  using assms by (simp add: header_token_def at_index_def split_js_append split_js_no_sep)

lemma step_keeps:
  assumes "token \<in> set (tokenBlacklist st)"
    and "survives lib token (sweep_times [ev])"
  shows "token \<in> set (tokenBlacklist (step lib cfg st ev))"
  using assms
  by (cases ev) (auto simp: blacklist_revokeToken set_set_add blacklist_sweep)

lemma run_keeps:
  assumes "token \<in> set (tokenBlacklist st)"
    and "survives lib token (sweep_times evs)"
  shows "token \<in> set (tokenBlacklist (run lib cfg st evs))"
  using assms
proof (induction evs arbitrary: st)
  case Nil
  then show ?case by simp
next
  case (Cons ev evs)
  have "token \<in> set (tokenBlacklist (step lib cfg st ev))"
    using Cons.prems by (intro step_keeps) (cases ev; simp)+
  moreover have "survives lib token (sweep_times evs)"
    using Cons.prems(2) by (cases ev) simp_all
  ultimately show ?case
    using Cons.IH by simp
qed

lemma authenticate_revoked:
  assumes "header_token hdr = Some token" and "token \<noteq> []"
    and "token \<in> set (tokenBlacklist st)"
  shows "authenticateToken lib cfg st now hdr = Rejected 401 ''Token has been revoked''"
  using assms by (simp add: authenticateToken_def set_has_def)

lemmas sample_defs =
  sample_jwt_def sample_sign_def sample_verify_def sample_decode_def sample_parse_def sample_timespan_def
  read_int_def digit_val_def cfg_24h_def cfg_7d_def

subsection \<open>The outcomes of the gate\<close>

text \<open>
  C4. Whatever the request, the library, the configuration, the registry and the clock,
  \<open>authenticateToken\<close> answers with one of five rejections: missing token (401), revoked
  (401), expired (401), too old (401), invalid (403); or it passes the request on, and then
  the identity attached to the request is the claims that \<open>jwt.verify\<close> returned, under
  the access secret, for the non-empty, unrevoked token taken from the header.
\<close>

theorem gate_outcomes:
  "authenticateToken lib cfg st now authHeader \<in>
     {Rejected 401 ''Access token required'', Rejected 401 ''Token has been revoked'',
      Rejected 401 ''Token expired'', Rejected 401 ''Token too old, please refresh'',
      Rejected 403 ''Invalid token''}
   \<or> (\<exists>token user.
         header_token authHeader = Some token \<and> token \<noteq> []
         \<and> \<not> set_has (tokenBlacklist st) token
         \<and> jwt_verify lib token (JWT_SECRET cfg) now = Verified user
         \<and> authenticateToken lib cfg st now authHeader = Next user)"
proof (cases "header_token authHeader")
  case None
  then show ?thesis by (simp add: authenticateToken_def)
next
  case (Some token)
  show ?thesis
  proof (cases "token = [] \<or> set_has (tokenBlacklist st) token")
    case True
    with Some show ?thesis by (auto simp: authenticateToken_def)
  next
    case False
    show ?thesis
    proof (cases "jwt_verify lib token (JWT_SECRET cfg) now")
      case (VerifyError name)
      with Some False show ?thesis by (simp add: authenticateToken_def)
    next
      case (Verified user)
      with Some False show ?thesis
        by (cases "payload_iat user") (simp_all add: authenticateToken_def Let_def)
    qed
  qed
qed

text \<open>
  Each of the six outcomes occurs: a fresh token of the example library is admitted with
  its claims; no header, the token once revoked, the token at its expiry, a token of seven
  days' lifetime after 24 hours, and a token made under another secret are rejected.
\<close>

theorem gate_outcomes_witness:
  "jwt_verify sample_jwt ''1:7200:93600:s1:a@x.com'' (JWT_SECRET cfg_24h) 7200999 =
     Verified \<lparr>payload_id = 1, payload_email = ''a@x.com'',
               payload_iat = Some 7200, payload_exp = Some 93600\<rparr>
   \<and> authenticateToken sample_jwt cfg_24h initial 7200999
        (Some ''Bearer 1:7200:93600:s1:a@x.com'') =
      Next \<lparr>payload_id = 1, payload_email = ''a@x.com'',
            payload_iat = Some 7200, payload_exp = Some 93600\<rparr>
   \<and> authenticateToken sample_jwt cfg_24h initial 7200999 None =
      Rejected 401 ''Access token required''
   \<and> authenticateToken sample_jwt cfg_24h (revokeToken initial ''1:7200:93600:s1:a@x.com'') 7200999
        (Some ''Bearer 1:7200:93600:s1:a@x.com'') = Rejected 401 ''Token has been revoked''
   \<and> authenticateToken sample_jwt cfg_24h initial 93600000
        (Some ''Bearer 1:7200:93600:s1:a@x.com'') = Rejected 401 ''Token expired''
   \<and> authenticateToken sample_jwt cfg_7d initial 86400001
        (Some ''Bearer 1:0:604800:s1:a@x.com'') = Rejected 401 ''Token too old, please refresh''
   \<and> authenticateToken sample_jwt cfg_24h initial 7200999
        (Some ''Bearer 1:7200:93600:s2:a@x.com'') = Rejected 403 ''Invalid token''"
proof -
  have v: "jwt_verify sample_jwt ''1:7200:93600:s1:a@x.com'' (JWT_SECRET cfg_24h) 7200999 =
     Verified \<lparr>payload_id = 1, payload_email = ''a@x.com'',
               payload_iat = Some 7200, payload_exp = Some 93600\<rparr>"
    by (simp add: sample_defs)
  have a: "authenticateToken sample_jwt cfg_24h initial 7200999
        (Some ''Bearer 1:7200:93600:s1:a@x.com'') =
      Next \<lparr>payload_id = 1, payload_email = ''a@x.com'',
            payload_iat = Some 7200, payload_exp = Some 93600\<rparr>"
    using v
    by (simp add: authenticateToken_def header_token_def at_index_def set_has_def maxAge_def
          initial_def)
  have m: "authenticateToken sample_jwt cfg_24h initial 7200999 None =
      Rejected 401 ''Access token required''"
    by (simp add: authenticateToken_def header_token_def)
  have r: "authenticateToken sample_jwt cfg_24h
        (revokeToken initial ''1:7200:93600:s1:a@x.com'') 7200999
        (Some ''Bearer 1:7200:93600:s1:a@x.com'') = Rejected 401 ''Token has been revoked''"
    by (simp add: authenticateToken_def header_token_def at_index_def set_has_def
          blacklist_revokeToken set_set_add)
  have e: "authenticateToken sample_jwt cfg_24h initial 93600000
        (Some ''Bearer 1:7200:93600:s1:a@x.com'') = Rejected 401 ''Token expired''"
    by (simp add: authenticateToken_def header_token_def at_index_def set_has_def
          initial_def sample_defs)
  have o: "authenticateToken sample_jwt cfg_7d initial 86400001
        (Some ''Bearer 1:0:604800:s1:a@x.com'') = Rejected 401 ''Token too old, please refresh''"
    by (simp add: authenticateToken_def header_token_def at_index_def set_has_def
          initial_def maxAge_def sample_defs)
  have i: "authenticateToken sample_jwt cfg_24h initial 7200999
        (Some ''Bearer 1:7200:93600:s2:a@x.com'') = Rejected 403 ''Invalid token''"
    by (simp add: authenticateToken_def header_token_def at_index_def set_has_def
          initial_def sample_defs)
  from v a m r e o i
    gate_outcomes [of sample_jwt cfg_24h initial 7200999 "Some ''Bearer 1:7200:93600:s1:a@x.com''"]
  show ?thesis by blast
qed

subsection \<open>Revoking twice\<close>

text \<open>
  C7. A second call of \<open>revokeToken\<close> on the same string returns (the model is total: the
  call has no failing branch), leaves the members of the registry and their order as the
  first call left them, and the string is still a member.
\<close>

theorem revoke_twice:
  "tokenBlacklist (revokeToken (revokeToken st token) token) =
     tokenBlacklist (revokeToken st token)
   \<and> set_has (tokenBlacklist (revokeToken (revokeToken st token) token)) token"
  by (simp add: blacklist_revokeToken set_add_again set_has_def set_set_add)

subsection \<open>Further auxiliary facts, and the example instance\<close>

lemma age_at_issue: "now - (now div 1000) * 1000 \<le> (maxAge :: int)"
proof -
  have "now - (now div 1000) * 1000 = now mod 1000"
    by (simp add: minus_div_mult_eq_mod)
  also have "\<dots> < 1000" by simp
  finally show ?thesis by (simp add: maxAge_def)
qed

lemma recent_survives:
  assumes "jwt_decode lib token = Decoded decoded" and "payload_iat decoded = Some iat"
    and "\<forall>t \<in> set ts. t \<le> iat * 1000 + 60 * 60 * 1000"
  shows "survives lib token ts"
  using assms(3)
  by (induction ts) (auto simp: sweep_deletes_def assms(1,2))

lemma filler_differs: "CHR ''7'' \<noteq> c \<Longrightarrow> c # cs \<notin> set (tokenBlacklist (crowded n))"
  by (auto simp: crowded_def filler_def)

lemma length_crowded: "length (tokenBlacklist (crowded n)) = n"
  by (simp add: crowded_def)

lemma revoke_crowded:
  assumes "CHR ''7'' \<noteq> c"
  shows "revokeToken (crowded 99) (c # cs) =
           \<lparr>tokenBlacklist = tokenBlacklist (crowded 99) @ [c # cs], timers = 1\<rparr>"
proof -
  have "set_add (tokenBlacklist (crowded 99)) (c # cs) = tokenBlacklist (crowded 99) @ [c # cs]"
    using filler_differs [OF assms] by (simp add: set_add_def set_has_def)
  moreover have "timers (crowded 99) = 0"
    by (simp add: crowded_def)
  ultimately show ?thesis
    by (simp add: revokeToken_def Let_def length_crowded)
qed

lemma run_append: "run lib cfg st (evs @ evs') = run lib cfg (run lib cfg st evs) evs'"
  by (induction evs arbitrary: st) simp_all

lemma filler_inj: "filler j = filler k \<Longrightarrow> j = k"
  by (simp add: filler_def)

lemma crowded_reached:
  "n < 100 \<Longrightarrow> run lib cfg initial (crowding n) = crowded n"
proof (induction n)
  case 0
  then show ?case by (simp add: crowded_def crowding_def initial_def)
next
  case (Suc n)
  have new: "\<not> set_has (tokenBlacklist (crowded n)) (filler (Suc n))"
    by (auto simp: set_has_def crowded_def dest: filler_inj)
  have "run lib cfg initial (crowding (Suc n)) = revokeToken (crowded n) (filler (Suc n))"
    using Suc by (simp add: run_append crowding_def)
  also have "\<dots> = crowded (Suc n)"
    using new Suc.prems
    by (simp add: revokeToken_def set_add_def Let_def crowded_def)
  finally show ?case .
qed

lemma run_crowding:
  "run lib cfg initial (crowding 99 @ evs) = run lib cfg (crowded 99) evs"
  by (simp add: run_append crowded_reached)

lemma sample_decode_old:
  "jwt_decode sample_jwt ''1:0:86400:s1:a@x.com'' =
     Decoded \<lparr>payload_id = 1, payload_email = ''a@x.com'',
              payload_iat = Some 0, payload_exp = Some 86400\<rparr>"
  by (simp add: sample_defs)

lemma sample_decode_recent:
  "jwt_decode sample_jwt ''1:7200:93600:s1:a@x.com'' =
     Decoded \<lparr>payload_id = 1, payload_email = ''a@x.com'',
              payload_iat = Some 7200, payload_exp = Some 93600\<rparr>"
  by (simp add: sample_defs)

lemma decode_filler:
  "jwt_decode sample_jwt (filler k) =
     Decoded \<lparr>payload_id = 7, payload_email = replicate k (CHR ''u'') @ ''@x.com'',
              payload_iat = Some 0, payload_exp = Some 86400\<rparr>"
proof -
  have "split_js (CHR '':'') (replicate k (CHR ''u'') @ ''@x.com'') =
          [replicate k (CHR ''u'') @ ''@x.com'']"
    by (rule split_js_no_sep) simp
  then show ?thesis
    by (simp add: filler_def sample_defs)
qed

lemma sweep_crowded:
  assumes "0 < now - 60 * 60 * 1000"
  shows "sweep_loop sample_jwt (now - 60 * 60 * 1000) (tokenBlacklist (crowded n)) = []"
  using assms
  by (simp add: sweep_loop_filter crowded_def sweep_deletes_def decode_filler filter_empty_conv)

lemma sample_verify_recent:
  "jwt_verify sample_jwt ''1:7200:93600:s1:a@x.com'' ''s1'' 7200999 =
     Verified \<lparr>payload_id = 1, payload_email = ''a@x.com'',
               payload_iat = Some 7200, payload_exp = Some 93600\<rparr>"
  by (simp add: sample_defs)

lemma sample_issue:
  "generateTokens sample_jwt cfg_24h 7200999 1 ''a@x.com'' =
     Some \<lparr>accessToken = ''1:7200:93600:s1:a@x.com'',
           refreshToken = ''1:7200:612000:s2:a@x.com''\<rparr>"
  by (simp add: generateTokens_def new_payload_def sample_defs)

subsection \<open>Revocation comes before verification\<close>

text \<open>
  C3. When the request presents a token (the second part of the header, not empty) that
  is a member of the registry, the answer is 401 ``Token has been revoked'', whatever
  \<open>jwt.verify\<close> would say about the string: the library is not consulted.
\<close>

theorem revoked_before_signature:
  assumes "header_token authHeader = Some token" and "token \<noteq> []"
    and "set_has (tokenBlacklist st) token"
  shows "authenticateToken lib cfg st now authHeader = Rejected 401 ''Token has been revoked''"
  using assms by (simp add: authenticateToken_def)

text \<open>
  An instance: the string \<open>garbage\<close> is no token of the example library, which rejects
  it as invalid; once in the registry it is answered as revoked.
\<close>

theorem revoked_before_signature_witness:
  "header_token (Some ''Bearer garbage'') = Some ''garbage''
   \<and> set_has (tokenBlacklist \<lparr>tokenBlacklist = [''garbage''], timers = 0\<rparr>) ''garbage''
   \<and> jwt_verify sample_jwt ''garbage'' (JWT_SECRET cfg_24h) 0 = VerifyError ''JsonWebTokenError''
   \<and> authenticateToken sample_jwt cfg_24h \<lparr>tokenBlacklist = [''garbage''], timers = 0\<rparr> 0
         (Some ''Bearer garbage'') = Rejected 401 ''Token has been revoked''"
proof -
  have h: "header_token (Some ''Bearer garbage'') = Some ''garbage''"
    by (simp add: header_token_def at_index_def)
  have ne: "''garbage'' \<noteq> []" by simp
  have m: "set_has (tokenBlacklist \<lparr>tokenBlacklist = [''garbage''], timers = 0\<rparr>) ''garbage''"
    by (simp add: set_has_def)
  have v: "jwt_verify sample_jwt ''garbage'' (JWT_SECRET cfg_24h) 0 = VerifyError ''JsonWebTokenError''"
    by (simp add: sample_defs)
  show ?thesis
    using h m v revoked_before_signature [OF h ne m, of sample_jwt cfg_24h 0] by simp
qed

subsection \<open>The authorization scheme\<close>

text \<open>
  C9. The first word of the header is never inspected. Two headers with at least two
  space-separated parts and the same second part get the same answer, so \<open>Basic x\<close> is
  treated as \<open>Bearer x\<close>; a header with fewer than two parts, like an absent header, is
  answered 401 ``Access token required''.
\<close>

theorem scheme_not_checked:
  "(2 \<le> length (split_js (CHR '' '') h1) \<and> 2 \<le> length (split_js (CHR '' '') h2)
      \<and> split_js (CHR '' '') h1 ! 1 = split_js (CHR '' '') h2 ! 1
     \<longrightarrow> authenticateToken lib cfg st now (Some h1) = authenticateToken lib cfg st now (Some h2))
   \<and> authenticateToken lib cfg st now (Some (''Basic '' @ rest)) =
       authenticateToken lib cfg st now (Some (''Bearer '' @ rest))
   \<and> (length (split_js (CHR '' '') h3) < 2
     \<longrightarrow> authenticateToken lib cfg st now (Some h3) = Rejected 401 ''Access token required'')
   \<and> authenticateToken lib cfg st now None = Rejected 401 ''Access token required''"
proof (intro conjI impI)
  assume a: "2 \<le> length (split_js (CHR '' '') h1) \<and> 2 \<le> length (split_js (CHR '' '') h2)
      \<and> split_js (CHR '' '') h1 ! 1 = split_js (CHR '' '') h2 ! 1"
  then have "h1 \<noteq> []" and "h2 \<noteq> []" by auto
  with a have "header_token (Some h1) = header_token (Some h2)"
    by (simp add: header_token_def at_index_def)
  then show "authenticateToken lib cfg st now (Some h1) = authenticateToken lib cfg st now (Some h2)"
    by (simp add: authenticateToken_def)
next
  have "header_token (Some (''Basic '' @ rest)) = header_token (Some (''Bearer '' @ rest))"
    by (simp add: header_token_def at_index_def)
  then show "authenticateToken lib cfg st now (Some (''Basic '' @ rest)) =
       authenticateToken lib cfg st now (Some (''Bearer '' @ rest))"
    by (simp add: authenticateToken_def)
next
  assume "length (split_js (CHR '' '') h3) < 2"
  then have "header_token (Some h3) = None \<or> header_token (Some h3) = Some []"
    by (simp add: header_token_def at_index_def)
  then show "authenticateToken lib cfg st now (Some h3) = Rejected 401 ''Access token required''"
    by (auto simp: authenticateToken_def)
next
  show "authenticateToken lib cfg st now None = Rejected 401 ''Access token required''"
    by (simp add: authenticateToken_def header_token_def)
qed

theorem scheme_not_checked_witness:
  "2 \<le> length (split_js (CHR '' '') ''Basic 1:7200:93600:s1:a@x.com'')
   \<and> 2 \<le> length (split_js (CHR '' '') ''Token 1:7200:93600:s1:a@x.com extra'')
   \<and> split_js (CHR '' '') ''Basic 1:7200:93600:s1:a@x.com'' ! 1 =
       split_js (CHR '' '') ''Token 1:7200:93600:s1:a@x.com extra'' ! 1
   \<and> authenticateToken sample_jwt cfg_24h \<lparr>tokenBlacklist = [], timers = 0\<rparr> 7200999
        (Some ''Basic 1:7200:93600:s1:a@x.com'') =
      authenticateToken sample_jwt cfg_24h \<lparr>tokenBlacklist = [], timers = 0\<rparr> 7200999
        (Some ''Token 1:7200:93600:s1:a@x.com extra'')
   \<and> authenticateToken sample_jwt cfg_24h \<lparr>tokenBlacklist = [], timers = 0\<rparr> 7200999
        (Some ''Basic 1:7200:93600:s1:a@x.com'') =
      Next \<lparr>payload_id = 1, payload_email = ''a@x.com'',
            payload_iat = Some 7200, payload_exp = Some 93600\<rparr>
   \<and> length (split_js (CHR '' '') ''Bearer'') < 2
   \<and> authenticateToken sample_jwt cfg_24h \<lparr>tokenBlacklist = [], timers = 0\<rparr> 7200999
        (Some ''Bearer'') = Rejected 401 ''Access token required''"
proof -
  let ?st = "\<lparr>tokenBlacklist = [], timers = 0\<rparr>"
  have a: "2 \<le> length (split_js (CHR '' '') ''Basic 1:7200:93600:s1:a@x.com'')
      \<and> 2 \<le> length (split_js (CHR '' '') ''Token 1:7200:93600:s1:a@x.com extra'')
      \<and> split_js (CHR '' '') ''Basic 1:7200:93600:s1:a@x.com'' ! 1 =
          split_js (CHR '' '') ''Token 1:7200:93600:s1:a@x.com extra'' ! 1"
    by simp
  have b: "length (split_js (CHR '' '') ''Bearer'') < 2"
    by simp
  have c: "authenticateToken sample_jwt cfg_24h ?st 7200999 (Some ''Basic 1:7200:93600:s1:a@x.com'') =
      Next \<lparr>payload_id = 1, payload_email = ''a@x.com'',
            payload_iat = Some 7200, payload_exp = Some 93600\<rparr>"
    using sample_verify_recent
    by (simp add: authenticateToken_def header_token_def at_index_def set_has_def maxAge_def
          cfg_24h_def)
  show ?thesis
    using a b c
      scheme_not_checked [of "''Basic 1:7200:93600:s1:a@x.com''"
        "''Token 1:7200:93600:s1:a@x.com extra''" sample_jwt cfg_24h ?st 7200999 "[]" "''Bearer''"]
    by (simp del: split_js.simps)
qed

subsection \<open>The age check\<close>

text \<open>
  C6. For a presented token that is not revoked: if the library verifies it and its
  \<open>iat\<close> lies more than 24 hours (a constant of the function, whatever
  \<open>JWT_EXPIRES_IN\<close> is) before the clock, the answer is 401 ``Token too old''; if the
  library reports it expired, the answer is 401 ``Token expired''; and the request is
  passed on only if the library verified the token and its age is at most 24 hours. The
  stricter of the two checks decides.
\<close>

theorem too_old_check:
  assumes "header_token authHeader = Some token" and "token \<noteq> []"
    and "\<not> set_has (tokenBlacklist st) token"
  shows "(jwt_verify lib token (JWT_SECRET cfg) now = Verified user
            \<and> payload_iat user = Some iat \<and> now - iat * 1000 > 24 * 60 * 60 * 1000
          \<longrightarrow> authenticateToken lib cfg st now authHeader =
                Rejected 401 ''Token too old, please refresh'')
       \<and> (jwt_verify lib token (JWT_SECRET cfg) now = VerifyError ''TokenExpiredError''
          \<longrightarrow> authenticateToken lib cfg st now authHeader = Rejected 401 ''Token expired'')
       \<and> (authenticateToken lib cfg st now authHeader = Next user
          \<longrightarrow> jwt_verify lib token (JWT_SECRET cfg) now = Verified user
              \<and> (\<forall>iat. payload_iat user = Some iat \<longrightarrow> now - iat * 1000 \<le> 24 * 60 * 60 * 1000))"
  using assms
  by (auto simp: authenticateToken_def maxAge_def Let_def
           split: verify_result.splits option.splits if_splits)

text \<open>
  An instance: with a configured lifetime of seven days, a token issued at second 0 is
  still verified by the library one millisecond after 24 hours, and is answered as too old.
\<close>

theorem too_old_check_witness:
  "generateTokens sample_jwt cfg_7d 0 1 ''a@x.com'' =
     Some \<lparr>accessToken = ''1:0:604800:s1:a@x.com'', refreshToken = ''1:0:604800:s2:a@x.com''\<rparr>
   \<and> header_token (Some ''Bearer 1:0:604800:s1:a@x.com'') = Some ''1:0:604800:s1:a@x.com''
   \<and> \<not> set_has (tokenBlacklist \<lparr>tokenBlacklist = [], timers = 0\<rparr>) ''1:0:604800:s1:a@x.com''
   \<and> jwt_verify sample_jwt ''1:0:604800:s1:a@x.com'' (JWT_SECRET cfg_7d) 86400001 =
       Verified \<lparr>payload_id = 1, payload_email = ''a@x.com'',
                 payload_iat = Some 0, payload_exp = Some 604800\<rparr>
   \<and> (86400001 :: int) - 0 * 1000 > 24 * 60 * 60 * 1000
   \<and> authenticateToken sample_jwt cfg_7d \<lparr>tokenBlacklist = [], timers = 0\<rparr> 86400001
        (Some ''Bearer 1:0:604800:s1:a@x.com'') = Rejected 401 ''Token too old, please refresh''"
proof -
  let ?t = "''1:0:604800:s1:a@x.com''"
  let ?st = "\<lparr>tokenBlacklist = [], timers = 0\<rparr>"
  let ?u = "\<lparr>payload_id = 1, payload_email = ''a@x.com'',
             payload_iat = Some 0, payload_exp = Some 604800\<rparr>"
  have g: "generateTokens sample_jwt cfg_7d 0 1 ''a@x.com'' =
     Some \<lparr>accessToken = ?t, refreshToken = ''1:0:604800:s2:a@x.com''\<rparr>"
    by (simp add: generateTokens_def new_payload_def sample_defs)
  have h: "header_token (Some ''Bearer 1:0:604800:s1:a@x.com'') = Some ?t"
    by (simp add: header_token_def at_index_def)
  have ne: "?t \<noteq> []" by simp
  have f: "\<not> set_has (tokenBlacklist ?st) ?t"
    by (simp add: set_has_def)
  have v: "jwt_verify sample_jwt ?t (JWT_SECRET cfg_7d) 86400001 = Verified ?u"
    by (simp add: sample_defs)
  have a: "(86400001 :: int) - 0 * 1000 > 24 * 60 * 60 * 1000"
    by simp
  have i: "payload_iat ?u = Some 0"
    by simp
  have r: "authenticateToken sample_jwt cfg_7d ?st 86400001 (Some ''Bearer 1:0:604800:s1:a@x.com'') =
      Rejected 401 ''Token too old, please refresh''"
    using too_old_check [OF h ne f, of sample_jwt cfg_7d 86400001 ?u 0] v i a by blast
  from g h f v a r show ?thesis
    by blast
qed

subsection \<open>Issuing and verifying\<close>

text \<open>
  C2. If the library keeps its promise for the claims being signed (signing succeeds and
  the token verifies under the access secret at the same clock reading), the access token
  of \<open>generateTokens\<close>, presented at once as a bearer token and not revoked, passes the
  gate, and the claims attached to the request carry the subject's id.
\<close>

theorem issue_then_verify:
  assumes lib_ok: "verifies_as_signed lib (new_payload now userId email)
                     (JWT_SECRET cfg) (JWT_EXPIRES_IN cfg) now"
    and gen: "generateTokens lib cfg now userId email = Some toks"
    and fresh: "\<not> set_has (tokenBlacklist st) (accessToken toks)"
  shows "\<exists>user. authenticateToken lib cfg st now (Some (''Bearer '' @ accessToken toks)) = Next user
               \<and> payload_id user = userId"
proof -
  let ?p = "new_payload now userId email"
  from gen have sig: "jwt_sign lib ?p (JWT_SECRET cfg) (JWT_EXPIRES_IN cfg) = Some (accessToken toks)"
    by (auto simp: generateTokens_def Let_def split: option.splits)
  with lib_ok obtain user where ne: "accessToken toks \<noteq> []"
    and sp: "CHR '' '' \<notin> set (accessToken toks)"
    and ver: "jwt_verify lib (accessToken toks) (JWT_SECRET cfg) now = Verified user"
    and uid: "payload_id user = userId"
    and iat: "payload_iat user = Some (now div 1000)"
    by (auto simp: verifies_as_signed_def new_payload_def split: verify_result.splits)
  have "header_token (Some (''Bearer'' @ '' '' @ accessToken toks)) = Some (accessToken toks)"
    using sp by (intro header_token_scheme) simp_all
  then have tok: "header_token (Some (''Bearer '' @ accessToken toks)) = Some (accessToken toks)"
    by simp
  have "authenticateToken lib cfg st now (Some (''Bearer '' @ accessToken toks)) = Next user"
    unfolding authenticateToken_def tok
    using ne fresh ver iat age_at_issue [of now] by (simp add: Let_def)
  with uid show ?thesis by blast
qed

theorem issue_then_verify_witness:
  "verifies_as_signed sample_jwt (new_payload 7200999 1 ''a@x.com'')
     (JWT_SECRET cfg_24h) (JWT_EXPIRES_IN cfg_24h) 7200999
   \<and> generateTokens sample_jwt cfg_24h 7200999 1 ''a@x.com'' =
       Some \<lparr>accessToken = ''1:7200:93600:s1:a@x.com'',
             refreshToken = ''1:7200:612000:s2:a@x.com''\<rparr>
   \<and> \<not> set_has (tokenBlacklist \<lparr>tokenBlacklist = [], timers = 0\<rparr>) ''1:7200:93600:s1:a@x.com''
   \<and> (\<exists>user. authenticateToken sample_jwt cfg_24h \<lparr>tokenBlacklist = [], timers = 0\<rparr> 7200999
                 (Some ''Bearer 1:7200:93600:s1:a@x.com'') = Next user
              \<and> payload_id user = 1)"
proof -
  let ?st = "\<lparr>tokenBlacklist = [], timers = 0\<rparr>"
  let ?toks = "\<lparr>accessToken = ''1:7200:93600:s1:a@x.com'',
               refreshToken = ''1:7200:612000:s2:a@x.com''\<rparr>"
  have v: "verifies_as_signed sample_jwt (new_payload 7200999 1 ''a@x.com'')
      (JWT_SECRET cfg_24h) (JWT_EXPIRES_IN cfg_24h) 7200999"
    by (simp add: verifies_as_signed_def new_payload_def sample_defs)
  have f: "\<not> set_has (tokenBlacklist ?st) (accessToken ?toks)"
    by (simp add: set_has_def)
  show ?thesis
    using v f sample_issue issue_then_verify [OF v sample_issue f] by simp
qed

text \<open>
  C8 as stated fails: the claims contain the clock in seconds, so two calls with the same
  subject, email and secrets one second apart return different token pairs.
\<close>

theorem generateTokens_clock_counterexample:
  "generateTokens sample_jwt cfg_24h 0 1 ''a@x.com'' \<noteq> generateTokens sample_jwt cfg_24h 1000 1 ''a@x.com''"
  by (simp add: generateTokens_def new_payload_def sample_defs)

text \<open>
  C8, amended. \<open>generateTokens\<close> leaves the registry as it is, and its result is
  determined by the subject id, the email, the configuration (both secrets and the access
  lifetime) and the clock in whole seconds: two calls within the same second return the
  same token pair.
\<close>

theorem generateTokens_same_second:
  "(now1 div 1000 = now2 div 1000
      \<longrightarrow> generateTokens lib cfg now1 userId email = generateTokens lib cfg now2 userId email)
   \<and> step lib cfg st (Issue now1 userId email) = st"
  by (simp add: generateTokens_def new_payload_def)

theorem generateTokens_same_second_witness:
  "(7200000 :: int) div 1000 = 7200999 div 1000
   \<and> generateTokens sample_jwt cfg_24h 7200000 1 ''a@x.com'' =
       generateTokens sample_jwt cfg_24h 7200999 1 ''a@x.com''
   \<and> generateTokens sample_jwt cfg_24h 7200999 1 ''a@x.com'' =
       Some \<lparr>accessToken = ''1:7200:93600:s1:a@x.com'',
             refreshToken = ''1:7200:612000:s2:a@x.com''\<rparr>
   \<and> step sample_jwt cfg_24h (crowded 99) (Issue 7200000 1 ''a@x.com'') = crowded 99"
proof -
  have s: "(7200000 :: int) div 1000 = 7200999 div 1000" by simp
  show ?thesis
    using s sample_issue
      generateTokens_same_second [of 7200000 7200999 sample_jwt cfg_24h 1 "''a@x.com''" "crowded 99"]
    by simp
qed

subsection \<open>Revoked tokens and the sweep\<close>

text \<open>
  C1 as stated fails. After 99 tokens have been revoked, a token issued at second 0 with
  a lifetime of 24 hours is revoked two hours later as the hundredth member, which
  schedules a sweep. The sweep deletes it, being older than one hour, and the gate then
  admits it.
\<close>

theorem revoked_token_admitted_after_sweep:
  "authenticateToken sample_jwt cfg_24h
     (run sample_jwt cfg_24h initial
        (crowding 99 @ [Revoke ''1:0:86400:s1:a@x.com'', Timer 7200000]))
     7200000 (Some ''Bearer 1:0:86400:s1:a@x.com'')
   = Next \<lparr>payload_id = 1, payload_email = ''a@x.com'',
            payload_iat = Some 0, payload_exp = Some 86400\<rparr>"
proof -
  let ?t = "''1:0:86400:s1:a@x.com''"
  let ?st = "run sample_jwt cfg_24h initial (crowding 99 @ [Revoke ?t, Timer 7200000])"
  have del: "sweep_deletes sample_jwt (7200000 - 60 * 60 * 1000) ?t"
    by (simp add: sweep_deletes_def sample_decode_old)
  have "?st = (sweep sample_jwt 7200000 (revokeToken (crowded 99) ?t))\<lparr>timers := 0\<rparr>"
    by (simp add: run_crowding revoke_crowded)
  then have "?t \<notin> set (tokenBlacklist ?st)"
    using del by (simp add: blacklist_sweep)
  moreover have "header_token (Some ''Bearer 1:0:86400:s1:a@x.com'') = Some ?t"
    by (simp add: header_token_def at_index_def)
  moreover have "jwt_verify sample_jwt ?t (JWT_SECRET cfg_24h) 7200000 =
      Verified \<lparr>payload_id = 1, payload_email = ''a@x.com'',
                payload_iat = Some 0, payload_exp = Some 86400\<rparr>"
    by (simp add: sample_defs)
  ultimately show ?thesis
    by (simp add: authenticateToken_def set_has_def maxAge_def)
qed

text \<open>
  C1, amended. After \<open>revokeToken\<close> on a token, every later request presenting it is
  answered 401 ``Token has been revoked'', whatever the clock reads and whatever calls of
  \<open>revokeToken\<close> and \<open>generateTokens\<close> happen in between, provided no sweep that ran
  in between selected the token for deletion.
\<close>

theorem revoked_while_registered:
  assumes "header_token authHeader = Some token" and "token \<noteq> []"
    and "survives lib token (sweep_times evs)"
  shows "authenticateToken lib cfg (run lib cfg (revokeToken st token) evs) now authHeader =
           Rejected 401 ''Token has been revoked''"
proof -
  have "token \<in> set (tokenBlacklist (revokeToken st token))"
    by (simp add: blacklist_revokeToken set_set_add)
  then have "token \<in> set (tokenBlacklist (run lib cfg (revokeToken st token) evs))"
    using assms(3) by (rule run_keeps)
  with assms(1,2) show ?thesis
    by (rule authenticate_revoked)
qed

theorem revoked_while_registered_witness:
  "header_token (Some ''Bearer 1:7200:93600:s1:a@x.com'') = Some ''1:7200:93600:s1:a@x.com''
   \<and> survives sample_jwt ''1:7200:93600:s1:a@x.com''
        (sweep_times [Timer 7200999, Revoke ''not-a-jwt'', Issue 7201000 2 ''b@x.com'',
                      Timer 10800000])
   \<and> authenticateToken sample_jwt cfg_24h
        (run sample_jwt cfg_24h (revokeToken (crowded 99) ''1:7200:93600:s1:a@x.com'')
           [Timer 7200999, Revoke ''not-a-jwt'', Issue 7201000 2 ''b@x.com'', Timer 10800000])
        10800001 (Some ''Bearer 1:7200:93600:s1:a@x.com'')
      = Rejected 401 ''Token has been revoked''"
proof -
  let ?t = "''1:7200:93600:s1:a@x.com''"
  let ?evs = "[Timer 7200999, Revoke ''not-a-jwt'', Issue 7201000 2 ''b@x.com'', Timer 10800000]"
  have h: "header_token (Some ''Bearer 1:7200:93600:s1:a@x.com'') = Some ?t"
    by (simp add: header_token_def at_index_def)
  have ne: "?t \<noteq> []" by simp
  have s: "survives sample_jwt ?t (sweep_times ?evs)"
    by (simp add: sweep_deletes_def sample_decode_recent)
  show ?thesis
    using h s revoked_while_registered [OF h ne s, of cfg_24h "crowded 99" 10800001] by simp
qed

text \<open>
  C10 as stated fails in its second part. \<open>iat\<close> is the clock of the issuing call
  rounded down to the second, and the sweep compares with \<open>iat\<close>: a token issued at
  7200999 ms and revoked as the hundredth member is deleted by a sweep at 10800500 ms,
  less than one hour after it was issued.
\<close>

theorem swept_within_first_hour:
  "generateTokens sample_jwt cfg_24h 7200999 1 ''a@x.com'' =
     Some \<lparr>accessToken = ''1:7200:93600:s1:a@x.com'',
           refreshToken = ''1:7200:612000:s2:a@x.com''\<rparr>
   \<and> (10800500 :: int) - 7200999 < 60 * 60 * 1000
   \<and> set_has (tokenBlacklist
        (run sample_jwt cfg_24h initial (crowding 99 @ [Revoke ''1:7200:93600:s1:a@x.com''])))
        ''1:7200:93600:s1:a@x.com''
   \<and> \<not> set_has (tokenBlacklist
        (run sample_jwt cfg_24h initial
           (crowding 99 @ [Revoke ''1:7200:93600:s1:a@x.com'', Timer 10800500])))
        ''1:7200:93600:s1:a@x.com''"
proof -
  let ?t = "''1:7200:93600:s1:a@x.com''"
  have del: "sweep_deletes sample_jwt (10800500 - 60 * 60 * 1000) ?t"
    by (simp add: sweep_deletes_def sample_decode_recent)
  have r: "revokeToken (crowded 99) ?t =
      \<lparr>tokenBlacklist = tokenBlacklist (crowded 99) @ [?t], timers = 1\<rparr>"
    by (rule revoke_crowded) simp
  have before: "set_has (tokenBlacklist
      (run sample_jwt cfg_24h initial (crowding 99 @ [Revoke ?t]))) ?t"
    by (simp add: run_crowding r set_has_def)
  have "run sample_jwt cfg_24h initial (crowding 99 @ [Revoke ?t, Timer 10800500]) =
      (sweep sample_jwt 10800500 (revokeToken (crowded 99) ?t))\<lparr>timers := 0\<rparr>"
    by (simp add: run_crowding r)
  then have after: "\<not> set_has (tokenBlacklist
      (run sample_jwt cfg_24h initial (crowding 99 @ [Revoke ?t, Timer 10800500]))) ?t"
    using del by (simp add: blacklist_sweep set_has_def)
  have "(10800500 :: int) - 7200999 < 60 * 60 * 1000" by simp
  with sample_issue before after show ?thesis by blast
qed

text \<open>
  C10, amended. A sweep keeps a member whose decoded \<open>iat\<close> is not more than one hour
  before the sweep's clock reading. Hence a token that is revoked stays in the registry
  through further calls and through every sweep that runs no later than one hour after
  its \<open>iat\<close>, the second in which it was issued.
\<close>

theorem sweep_keeps_recent:
  assumes "jwt_decode lib token = Decoded decoded" and "payload_iat decoded = Some iat"
  shows "(now - 60 * 60 * 1000 \<le> iat * 1000 \<and> set_has (tokenBlacklist st) token
            \<longrightarrow> set_has (tokenBlacklist (sweep lib now st)) token)
       \<and> ((\<forall>t \<in> set (sweep_times evs). t \<le> iat * 1000 + 60 * 60 * 1000)
            \<longrightarrow> set_has (tokenBlacklist (run lib cfg (revokeToken st token) evs)) token)"
proof (intro conjI impI)
  assume "now - 60 * 60 * 1000 \<le> iat * 1000 \<and> set_has (tokenBlacklist st) token"
  then show "set_has (tokenBlacklist (sweep lib now st)) token"
    by (simp add: set_has_def blacklist_sweep sweep_deletes_def assms)
next
  assume "\<forall>t \<in> set (sweep_times evs). t \<le> iat * 1000 + 60 * 60 * 1000"
  with assms have "survives lib token (sweep_times evs)"
    by (rule recent_survives)
  moreover have "token \<in> set (tokenBlacklist (revokeToken st token))"
    by (simp add: blacklist_revokeToken set_set_add)
  ultimately show "set_has (tokenBlacklist (run lib cfg (revokeToken st token) evs)) token"
    unfolding set_has_def by (intro run_keeps)
qed

theorem sweep_keeps_recent_witness:
  "jwt_decode sample_jwt ''1:7200:93600:s1:a@x.com'' =
     Decoded \<lparr>payload_id = 1, payload_email = ''a@x.com'',
              payload_iat = Some 7200, payload_exp = Some 93600\<rparr>
   \<and> (10800000 :: int) - 60 * 60 * 1000 \<le> 7200 * 1000
   \<and> set_has (tokenBlacklist (revokeToken (crowded 99) ''1:7200:93600:s1:a@x.com''))
        ''1:7200:93600:s1:a@x.com''
   \<and> set_has (tokenBlacklist
        (sweep sample_jwt 10800000 (revokeToken (crowded 99) ''1:7200:93600:s1:a@x.com'')))
        ''1:7200:93600:s1:a@x.com''
   \<and> sweep_times [Timer 7200999, Revoke ''not-a-jwt'', Timer 10800000] = [7200999, 10800000]
   \<and> set_has (tokenBlacklist
        (run sample_jwt cfg_24h (revokeToken (crowded 99) ''1:7200:93600:s1:a@x.com'')
           [Timer 7200999, Revoke ''not-a-jwt'', Timer 10800000]))
        ''1:7200:93600:s1:a@x.com''"
proof -
  let ?t = "''1:7200:93600:s1:a@x.com''"
  let ?st = "revokeToken (crowded 99) ?t"
  let ?evs = "[Timer 7200999, Revoke ''not-a-jwt'', Timer 10800000]"
  have i: "payload_iat \<lparr>payload_id = 1, payload_email = ''a@x.com'',
              payload_iat = Some 7200, payload_exp = Some 93600\<rparr> = Some 7200"
    by simp
  have m: "set_has (tokenBlacklist ?st) ?t"
    by (simp add: set_has_def blacklist_revokeToken set_set_add)
  have ts: "sweep_times ?evs = [7200999, 10800000]"
    by simp
  show ?thesis
    using m ts sample_decode_recent
      sweep_keeps_recent [OF sample_decode_recent i, of 10800000 ?st ?evs cfg_24h]
      sweep_keeps_recent [OF sample_decode_recent i, of 10800000 "crowded 99" ?evs cfg_24h]
    by simp
qed

text \<open>
  The sweep does delete what is old or makes the decoder throw.
\<close>

lemma sweep_removes:
  assumes "jwt_decode lib token = DecodeThrows
           \<or> (\<exists>decoded iat. jwt_decode lib token = Decoded decoded
                  \<and> payload_iat decoded = Some iat \<and> iat * 1000 < now - 60 * 60 * 1000)"
  shows "\<not> set_has (tokenBlacklist (sweep lib now st)) token"
  using assms by (auto simp: set_has_def blacklist_sweep sweep_deletes_def)

text \<open>
  C5. The hundredth member schedules the sweep, but a member for which \<open>jwt.decode\<close>
  returns \<open>null\<close> is not deleted by it: after 99 tokens issued two hours earlier have
  been revoked, the string \<open>not-a-jwt\<close> is revoked, the sweep runs and deletes the 99
  tokens, and the string is the member that is left.
\<close>

theorem sweep_keeps_undecodable:
  "jwt_decode sample_jwt ''not-a-jwt'' = DecodeNull
   \<and> length (tokenBlacklist
        (run sample_jwt cfg_24h initial (crowding 99 @ [Revoke ''not-a-jwt'']))) = 100
   \<and> timers (run sample_jwt cfg_24h initial (crowding 99 @ [Revoke ''not-a-jwt''])) = 1
   \<and> run sample_jwt cfg_24h initial (crowding 99 @ [Revoke ''not-a-jwt'', Timer 7200000]) =
       \<lparr>tokenBlacklist = [''not-a-jwt''], timers = 0\<rparr>"
proof -
  have d: "jwt_decode sample_jwt ''not-a-jwt'' = DecodeNull"
    by (simp add: sample_defs)
  then have keep: "\<not> sweep_deletes sample_jwt (7200000 - 60 * 60 * 1000) ''not-a-jwt''"
    by (simp add: sweep_deletes_def)
  have r: "revokeToken (crowded 99) ''not-a-jwt'' =
      \<lparr>tokenBlacklist = tokenBlacklist (crowded 99) @ [''not-a-jwt''], timers = 1\<rparr>"
    by (rule revoke_crowded) simp
  have "sweep_loop sample_jwt (7200000 - 60 * 60 * 1000) (tokenBlacklist (crowded 99)) = []"
    by (rule sweep_crowded) simp
  then have "run sample_jwt cfg_24h (crowded 99) [Revoke ''not-a-jwt'', Timer 7200000] =
       \<lparr>tokenBlacklist = [''not-a-jwt''], timers = 0\<rparr>"
    using keep by (simp add: r sweep_def sweep_loop_filter)
  with d r show ?thesis
    by (simp add: run_crowding length_crowded)
qed

end
